theory Spec2Isabelle
  imports Main "HOL-Library.AList"
begin

section \<open>Python values\<close>

text \<open>
  The values of \<^verbatim>\<open>ez_lib/types.py\<close> (\<^verbatim>\<open>json_types\<close>): \<^verbatim>\<open>None\<close>, booleans, unbounded
  integers, strings, lists and string-keyed dictionaries. A dictionary is an association
  list read with \<open>map_of\<close>. \<open>PObj\<close> is any other object an attribute can hold (a method, a
  function), known by its identity. Floats are left out: IEEE arithmetic is not part of
  this development.
\<close>

datatype pyval =
    PNone
  | PBool bool
  | PInt int
  | PStr string
  | PList "pyval list"
  | PDict "(string \<times> pyval) list"
  | PObj nat

text \<open>Truth value of an object, as \<^verbatim>\<open>not x\<close> and \<^verbatim>\<open>if x\<close> test it.\<close>

fun truthy :: "pyval \<Rightarrow> bool" where
  "truthy PNone = False"
| "truthy (PBool b) = b"
| "truthy (PInt i) = (i \<noteq> 0)"
| "truthy (PStr s) = (s \<noteq> [])"
| "truthy (PList xs) = (xs \<noteq> [])"
| "truthy (PDict d) = (d \<noteq> [])"
| "truthy (PObj n) = True"

text \<open>Lists and dictionaries are unhashable; using one as a dictionary key raises TypeError.\<close>

fun hashable :: "pyval \<Rightarrow> bool" where
  "hashable (PList xs) = False"
| "hashable (PDict d) = False"
| "hashable v = True"

text \<open>
  Equality of dictionary keys is Python's \<^verbatim>\<open>==\<close>: \<^verbatim>\<open>True == 1\<close> and \<^verbatim>\<open>False == 0\<close>, so
  a boolean and the integer it equals are one key.
\<close>

fun key_norm :: "pyval \<Rightarrow> pyval" where
  "key_norm (PBool b) = PInt (if b then 1 else 0)"
| "key_norm v = v"

definition py_eq :: "pyval \<Rightarrow> pyval \<Rightarrow> bool" where
  "py_eq a b = (key_norm a = key_norm b)"

section \<open>Model classes, exceptions, the world\<close>

text \<open>
  What the helpers read of a concrete model class: its name, the keys of the class's own
  \<^verbatim>\<open>__dict__\<close> in order, \<^verbatim>\<open>_serialize_map\<close>, \<^verbatim>\<open>_except_fields\<close>, the keys of the
  columns of \<^verbatim>\<open>__table__.c\<close>, and what reading an attribute finds on the class when the
  instance has no value of its own: \<^verbatim>\<open>None\<close> for a mapped attribute, the value of a plain
  class attribute such as \<^verbatim>\<open>__tablename__\<close>, an object for a method. A column's key need not
  be the name of the attribute mapped to it (\<^verbatim>\<open>my_id = mapped_column("id")\<close> has key
  \<^verbatim>\<open>id\<close>).
\<close>

record model_class =
  cls_name :: string
  cls_dict_keys :: "string list"
  serialize_map :: "(string \<times> string) list"
  except_fields :: "string list"
  table_columns :: "string list"
  class_attrs :: "(string \<times> pyval) list"

text \<open>
  The exceptions the code raises, by \<^verbatim>\<open>raise\<close> or through the language (calling or
  reading an attribute of \<^verbatim>\<open>None\<close>, a missing key, subscripting a non-dictionary, an
  unhashable key). \<open>BodyError\<close> is any exception raised by the caller's code inside a
  session scope, \<open>DriverError\<close> any exception raised by a call of the driver or the logger.
\<close>

datatype exn =
    RuntimeError string
  | TypeError string
  | AttributeError string
  | KeyError string
  | DictKeyMapError model_class string
  | BodyError string
  | DriverError string

type_synonym logger = nat

text \<open>
  The messages handed to the logger: the f-strings of \<^verbatim>\<open>init\<close>, \<^verbatim>\<open>get_session\<close>
  (with the error) and \<^verbatim>\<open>_log_field_not_found\<close> (with class and field name).
\<close>

datatype log_msg =
    PoolCreatedMsg
  | SessionErrorMsg exn
  | FieldNotFoundMsg string string

text \<open>
  The driver and the logger are outside the library: their calls are recorded, in order,
  in the trace of the world. Engines and sessions are handles.
\<close>

datatype event =
    LogInfo logger log_msg
  | LogError logger log_msg
  | LogDebug logger log_msg
  | EngineCreated nat string
  | PoolDispose nat
  | SessionCreated nat nat
  | SessionCommit nat
  | SessionRollback nat
  | SessionClose nat

text \<open>
  The calls a session scope makes when it is left: \<^verbatim>\<open>log.error\<close>, \<^verbatim>\<open>session.rollback()\<close>,
  \<^verbatim>\<open>session.close()\<close>. Each of them may raise instead of returning.
\<close>

datatype scope_call = LogErrorCall | RollbackCall | CloseCall

text \<open>
  \<open>class_log\<close> is the class attribute \<^verbatim>\<open>AsyncPgWrapper.log\<close>. \<open>scope_faults\<close> says, for a
  session and a call of its scope, what the call raises; \<open>None\<close> when it returns. A call is
  recorded in the trace when it is made, whether it returns or raises.
\<close>

record world =
  class_log :: "logger option"
  trace :: "event list"
  fresh :: nat
  scope_faults :: "nat \<Rightarrow> scope_call \<Rightarrow> exn option"

definition emit :: "event \<Rightarrow> world \<Rightarrow> world" where
  "emit ev w = w\<lparr>trace := trace w @ [ev]\<rparr>"

section \<open>AsyncPgWrapper\<close>

record pg_config =
  host :: string
  port :: int
  user :: string
  passwd :: string
  db_name :: string
  pool_size :: int
  pool_max_overflow :: int
  pool_timeout :: int
  pool_recycle :: int

record pg_wrapper =
  cfg :: pg_config
  engine :: "nat option"
  session_maker :: "nat option"

text \<open>\<^verbatim>\<open>__init__\<close>: stores the configuration, and the logger in the class attribute.\<close>

definition AsyncPgWrapper :: "pg_config \<Rightarrow> logger option \<Rightarrow> world \<Rightarrow> pg_wrapper \<times> world" where
  "AsyncPgWrapper c lg w =
     (\<lparr>cfg = c, engine = None, session_maker = None\<rparr>, w\<lparr>class_log := lg\<rparr>)"

fun digit_char :: "nat \<Rightarrow> char" where
  "digit_char n = char_of (48 + n)"

function show_nat :: "nat \<Rightarrow> string" where
  "show_nat n = (if n < 10 then [digit_char n] else show_nat (n div 10) @ [digit_char (n mod 10)])"
  by pat_completeness auto
termination
  by (relation "measure id") auto

definition show_int :: "int \<Rightarrow> string" where
  "show_int i = (if i < 0 then CHR ''-'' # show_nat (nat (- i)) else show_nat (nat i))"

definition mk_conn_str :: "pg_wrapper \<Rightarrow> string" where
  "mk_conn_str s =
     ''postgresql+asyncpg://'' @ user (cfg s) @ '':'' @ passwd (cfg s) @ ''@'' @
     host (cfg s) @ '':'' @ show_int (port (cfg s)) @ ''/'' @ db_name (cfg s)"

text \<open>
  \<^verbatim>\<open>init\<close>: creates the engine and a session maker bound to it, then logs when the class
  attribute holds a logger.
\<close>

definition pg_init :: "pg_wrapper \<Rightarrow> world \<Rightarrow> pg_wrapper \<times> world" where
  "pg_init s w =
     (let eid = fresh w;
          w1 = (emit (EngineCreated eid (mk_conn_str s)) w)\<lparr>fresh := Suc eid\<rparr>;
          s1 = s\<lparr>engine := Some eid, session_maker := Some eid\<rparr>
      in (s1, case class_log w1 of
                Some lg \<Rightarrow> emit (LogInfo lg PoolCreatedMsg) w1
              | None \<Rightarrow> w1))"

text \<open>
  \<^verbatim>\<open>get_session\<close> tests the module-level name \<^verbatim>\<open>async_sessionmaker\<close>: the class imported
  from the driver, which is bound and true wherever \<^verbatim>\<open>AsyncPgWrapper\<close> is defined
  (\<^verbatim>\<open>if sqlalchemy:\<close>).
\<close>

definition async_sessionmaker :: bool where
  "async_sessionmaker = True"

text \<open>
  \<^verbatim>\<open>get_session\<close> up to its \<^verbatim>\<open>yield\<close>: the guard, then the call of \<^verbatim>\<open>self._session_maker\<close>,
  which is a call of \<^verbatim>\<open>None\<close> before \<^verbatim>\<open>init\<close>.
\<close>

definition get_session_enter :: "pg_wrapper \<Rightarrow> world \<Rightarrow> (exn + nat) \<times> world" where
  "get_session_enter s w =
     (if \<not> async_sessionmaker then
        (Inl (RuntimeError ''SQLAlchemy Postgres async SessionMaker not inited.''), w)
      else
        (case session_maker s of
           None \<Rightarrow> (Inl (TypeError ''NoneType object is not callable''), w)
         | Some eid \<Rightarrow>
             (Inr (fresh w), (emit (SessionCreated (fresh w) eid) w)\<lparr>fresh := Suc (fresh w)\<rparr>)))"

text \<open>
  The \<^verbatim>\<open>except BaseException as e\<close> branch of \<^verbatim>\<open>get_session\<close>: \<^verbatim>\<open>log.error\<close> when the
  class attribute holds a logger, then \<^verbatim>\<open>await session.rollback()\<close>, then \<^verbatim>\<open>raise e\<close>. The
  result is the exception that leaves the branch: \<open>e\<close>, or what the logger or the rollback
  raised; a logger that raises leaves the rollback unreached.
\<close>

definition except_branch :: "nat \<Rightarrow> exn \<Rightarrow> world \<Rightarrow> exn \<times> world" where
  "except_branch session e w =
     (case (case class_log w of
              Some lg \<Rightarrow>
                (scope_faults w session LogErrorCall, emit (LogError lg (SessionErrorMsg e)) w)
            | None \<Rightarrow> (None, w)) of
        (Some x, w1) \<Rightarrow> (x, w1)
      | (None, w1) \<Rightarrow>
          (case scope_faults w1 session RollbackCall of
             Some x \<Rightarrow> (x, emit (SessionRollback session) w1)
           | None \<Rightarrow> (e, emit (SessionRollback session) w1)))"

text \<open>
  The \<^verbatim>\<open>finally\<close> branch: \<^verbatim>\<open>await session.close()\<close>. When the close raises, its exception
  replaces the outcome so far; when it returns, the outcome stands.
\<close>

definition finally_branch :: "nat \<Rightarrow> exn + 'a \<Rightarrow> world \<Rightarrow> (exn + 'a) \<times> world" where
  "finally_branch session r w =
     (case scope_faults w session CloseCall of
        Some y \<Rightarrow> (Inl y, emit (SessionClose session) w)
      | None \<Rightarrow> (r, emit (SessionClose session) w))"

text \<open>
  \<^verbatim>\<open>get_session\<close> after its \<^verbatim>\<open>yield\<close>, resumed with the outcome of the body: an exception
  of the body goes through the \<^verbatim>\<open>except\<close> branch, and both paths end in the \<^verbatim>\<open>finally\<close>
  branch. The caller of the scope gets the exception that leaves the generator.
\<close>

definition get_session_exit :: "nat \<Rightarrow> exn + 'a \<Rightarrow> world \<Rightarrow> (exn + 'a) \<times> world" where
  "get_session_exit session r w =
     (case r of
        Inl e \<Rightarrow>
          (case except_branch session e w of (x, w1) \<Rightarrow> finally_branch session (Inl x) w1)
      | Inr v \<Rightarrow> finally_branch session (Inr v) w)"

text \<open>\<^verbatim>\<open>async with wrapper.get_session() as session: body(session)\<close>.\<close>

definition with_session ::
  "pg_wrapper \<Rightarrow> (nat \<Rightarrow> world \<Rightarrow> (exn + 'a) \<times> world) \<Rightarrow> world \<Rightarrow> (exn + 'a) \<times> world" where
  "with_session s body w =
     (case get_session_enter s w of
        (Inl e, w1) \<Rightarrow> (Inl e, w1)
      | (Inr session, w1) \<Rightarrow>
          (case body session w1 of (r, w2) \<Rightarrow> get_session_exit session r w2))"

text \<open>\<^verbatim>\<open>close\<close>: \<^verbatim>\<open>self._engine.pool.dispose()\<close>; before \<^verbatim>\<open>init\<close> the engine is \<^verbatim>\<open>None\<close>.\<close>

definition pg_close :: "pg_wrapper \<Rightarrow> world \<Rightarrow> (exn + unit) \<times> world" where
  "pg_close s w =
     (case engine s of
        None \<Rightarrow> (Inl (AttributeError ''NoneType object has no attribute pool''), w)
      | Some eid \<Rightarrow> (Inr (), emit (PoolDispose eid) w))"

text \<open>
  Reading the trace backwards from now: the pool of engine \<open>eid\<close> was disposed, and no
  session has been created on that engine since.
\<close>

fun disposed_since :: "nat \<Rightarrow> event list \<Rightarrow> bool" where
  "disposed_since eid [] = False"
| "disposed_since eid (PoolDispose e # evs) = (e = eid \<or> disposed_since eid evs)"
| "disposed_since eid (SessionCreated session e # evs) = (e \<noteq> eid \<and> disposed_since eid evs)"
| "disposed_since eid (ev # evs) = disposed_since eid evs"

text \<open>
  The pool of the wrapper's engine is disposed: its last dispose has not been followed by a
  new session. This is a state of the driver's pool; the wrapper keeps no state of its own
  about it, and nothing in \<^verbatim>\<open>get_session\<close> reads it.
\<close>

definition pool_disposed :: "pg_wrapper \<Rightarrow> world \<Rightarrow> bool" where
  "pool_disposed s w =
     (case engine s of None \<Rightarrow> False | Some eid \<Rightarrow> disposed_since eid (rev (trace w)))"


section \<open>AbstractModelHelper\<close>

text \<open>
  A model instance: its class and the attributes set on it. Reading an attribute gives the
  value set on the instance, else what the class has under that name, else raises
  AttributeError.
\<close>

record model =
  cls :: model_class
  attrs :: "(string \<times> pyval) list"

definition setattr :: "model \<Rightarrow> string \<Rightarrow> pyval \<Rightarrow> model" where
  "setattr m k v = m\<lparr>attrs := AList.update k v (attrs m)\<rparr>"

definition getattr :: "model \<Rightarrow> string \<Rightarrow> exn + pyval" where
  "getattr m k =
     (case map_of (attrs m) k of
        Some v \<Rightarrow> Inr v
      | None \<Rightarrow>
          (case map_of (class_attrs (cls m)) k of
             Some v \<Rightarrow> Inr v
           | None \<Rightarrow> Inl (AttributeError k)))"

text \<open>\<^verbatim>\<open>_log_field_not_found\<close>: a debug message, when the class attribute holds a logger.\<close>

definition log_field_not_found :: "model \<Rightarrow> string \<Rightarrow> world \<Rightarrow> world" where
  "log_field_not_found m field_name w =
     (case class_log w of
        Some lg \<Rightarrow> emit (LogDebug lg (FieldNotFoundMsg (cls_name (cls m)) field_name)) w
      | None \<Rightarrow> w)"

text \<open>\<^verbatim>\<open>f[key]\<close> with a string key: KeyError on a dictionary without it, TypeError elsewhere.\<close>

fun subscript :: "pyval \<Rightarrow> string \<Rightarrow> exn + pyval" where
  "subscript (PDict d) k = (case map_of d k of Some v \<Rightarrow> Inr v | None \<Rightarrow> Inl (KeyError k))"
| "subscript (PList xs) k = Inl (TypeError ''list indices must be integers or slices, not str'')"
| "subscript (PStr s) k = Inl (TypeError ''string indices must be integers, not str'')"
| "subscript v k = Inl (TypeError ''object is not subscriptable'')"

text \<open>\<^verbatim>\<open>field_name.startswith('_')\<close>, \<^verbatim>\<open>'__' in field_name\<close>, \<^verbatim>\<open>field_name.split('__')\<close>.\<close>

fun startswith_underscore :: "string \<Rightarrow> bool" where
  "startswith_underscore [] = False"
| "startswith_underscore (c # cs) = (c = CHR ''_'')"

fun contains_dunder :: "string \<Rightarrow> bool" where
  "contains_dunder (a # b # cs) = ((a = CHR ''_'' \<and> b = CHR ''_'') \<or> contains_dunder (b # cs))"
| "contains_dunder cs = False"

fun split_dunder :: "string \<Rightarrow> string list" where
  "split_dunder (a # b # cs) =
     (if a = CHR ''_'' \<and> b = CHR ''_'' then [] # split_dunder cs
      else (case split_dunder (b # cs) of
              [] \<Rightarrow> [[a]]
            | p # ps \<Rightarrow> (a # p) # ps))"
| "split_dunder cs = [cs]"

text \<open>\<^verbatim>\<open>for nested in arr: f = f[nested]\<close>.\<close>

fun walk :: "pyval \<Rightarrow> string list \<Rightarrow> exn + pyval" where
  "walk f [] = Inr f"
| "walk f (nested # arr) =
     (case subscript f nested of Inl e \<Rightarrow> Inl e | Inr f' \<Rightarrow> walk f' arr)"

text \<open>
  The two \<^verbatim>\<open>try\<close> blocks of \<^verbatim>\<open>from_dict\<close> share their handler: a KeyError is logged and
  raised again only when \<^verbatim>\<open>strict\<close>; any other exception passes through.
\<close>

definition set_or_not_found ::
  "bool \<Rightarrow> string \<Rightarrow> exn + pyval \<Rightarrow> model \<Rightarrow> world \<Rightarrow> exn option \<times> model \<times> world" where
  "set_or_not_found strict field_name r m w =
     (case r of
        Inr v \<Rightarrow> (None, setattr m field_name v, w)
      | Inl (KeyError k) \<Rightarrow>
          (if strict then (Some (KeyError k), m, log_field_not_found m field_name w)
           else (None, m, log_field_not_found m field_name w))
      | Inl e \<Rightarrow> (Some e, m, w))"

text \<open>
  The body of the loop of \<^verbatim>\<open>from_dict\<close> for one key of the class dictionary. The result
  is the exception raised, if any, with the instance and the world as they then are. The
  branch of \<^verbatim>\<open>_serialize_map\<close> has no \<^verbatim>\<open>try\<close>.
\<close>

definition from_dict_field ::
  "(string \<times> pyval) list \<Rightarrow> bool \<Rightarrow> string \<Rightarrow> model \<Rightarrow> world \<Rightarrow> exn option \<times> model \<times> world" where
  "from_dict_field d strict field_name m w =
     (if \<not> startswith_underscore field_name \<and> field_name \<notin> set (except_fields (cls m)) then
        (case map_of (serialize_map (cls m)) field_name of
           Some key \<Rightarrow>
             (case subscript (PDict d) key of
                Inl e \<Rightarrow> (Some e, m, w)
              | Inr v \<Rightarrow> (None, setattr m field_name v, w))
         | None \<Rightarrow>
             (if \<not> contains_dunder field_name then
                set_or_not_found strict field_name (subscript (PDict d) field_name) m w
              else
                set_or_not_found strict field_name (walk (PDict d) (split_dunder field_name)) m w))
      else (None, m, w))"

fun from_dict_loop ::
  "(string \<times> pyval) list \<Rightarrow> bool \<Rightarrow> string list \<Rightarrow> model \<Rightarrow> world \<Rightarrow> exn option \<times> model \<times> world" where
  "from_dict_loop d strict [] m w = (None, m, w)"
| "from_dict_loop d strict (field_name # rest) m w =
     (case from_dict_field d strict field_name m w of
        (Some e, m', w') \<Rightarrow> (Some e, m', w')
      | (None, m', w') \<Rightarrow> from_dict_loop d strict rest m' w')"

definition from_dict ::
  "model \<Rightarrow> (string \<times> pyval) list \<Rightarrow> bool \<Rightarrow> world \<Rightarrow> exn option \<times> model \<times> world" where
  "from_dict m d strict w = from_dict_loop d strict (cls_dict_keys (cls m)) m w"








section \<open>Result mapping helpers\<close>

text \<open>
  A dictionary with arbitrary hashable keys, in insertion order. Storing under a key equal
  to one present replaces the value and keeps the key already there.
\<close>

fun dict_set :: "(pyval \<times> 'v) list \<Rightarrow> pyval \<Rightarrow> 'v \<Rightarrow> (pyval \<times> 'v) list" where
  "dict_set [] k v = [(k, v)]"
| "dict_set ((k', v') # d) k v =
     (if py_eq k' k then (k', v) # d else (k', v') # dict_set d k v)"

fun dict_get :: "(pyval \<times> 'v) list \<Rightarrow> pyval \<Rightarrow> 'v option" where
  "dict_get [] k = None"
| "dict_get ((k', v') # d) k = (if py_eq k' k then Some v' else dict_get d k)"

text \<open>
  The loop of \<^verbatim>\<open>model_list_to_dict\<close>: \<^verbatim>\<open>getattr\<close>, the test \<^verbatim>\<open>if not id_field\<close>, then the
  store, which raises TypeError on an unhashable key.
\<close>

fun model_list_to_dict_loop ::
  "model list \<Rightarrow> string \<Rightarrow> (pyval \<times> model) list \<Rightarrow> exn + (pyval \<times> model) list" where
  "model_list_to_dict_loop [] id_field_name d = Inr d"
| "model_list_to_dict_loop (m # models) id_field_name d =
     (case getattr m id_field_name of
        Inl e \<Rightarrow> Inl e
      | Inr id_field \<Rightarrow>
          (if \<not> truthy id_field then Inl (DictKeyMapError (cls m) id_field_name)
           else if \<not> hashable id_field then Inl (TypeError ''unhashable type'')
           else model_list_to_dict_loop models id_field_name (dict_set d id_field m)))"

definition model_list_to_dict :: "model list \<Rightarrow> string \<Rightarrow> exn + (pyval \<times> model) list" where
  "model_list_to_dict models id_field_name = model_list_to_dict_loop models id_field_name []"

text \<open>The key of a record under a field name equals \<open>k\<close>.\<close>

definition has_key :: "string \<Rightarrow> pyval \<Rightarrow> model \<Rightarrow> bool" where
  "has_key id_field_name k m =
     (case getattr m id_field_name of Inl e \<Rightarrow> False | Inr v \<Rightarrow> py_eq v k)"

text \<open>The record's key under the field name is readable, true and hashable.\<close>

definition key_ok :: "string \<Rightarrow> model \<Rightarrow> bool" where
  "key_ok id_field_name m =
     (case getattr m id_field_name of Inl e \<Rightarrow> False | Inr v \<Rightarrow> truthy v \<and> hashable v)"

section \<open>Reading the trace\<close>

fun is_log :: "event \<Rightarrow> bool" where
  "is_log (LogInfo lg msg) = True"
| "is_log (LogError lg msg) = True"
| "is_log (LogDebug lg msg) = True"
| "is_log ev = False"

text \<open>The calls of the logger recorded so far.\<close>

definition log_events :: "world \<Rightarrow> event list" where
  "log_events w = filter is_log (trace w)"

section \<open>Example inputs\<close>

definition example_cfg :: pg_config where
  "example_cfg = \<lparr>host = ''localhost'', port = 5432, user = ''app'', passwd = ''secret'',
     db_name = ''main'', pool_size = 10, pool_max_overflow = 10, pool_timeout = 30,
     pool_recycle = 1800\<rparr>"

definition world0 :: world where
  "world0 = \<lparr>class_log = None, trace = [], fresh = 0,
              scope_faults = (\<lambda>session call. None)\<rparr>"

text \<open>A wrapper constructed with logger 7 and initialised, and the world after that.\<close>

definition example_wrapper :: pg_wrapper where
  "example_wrapper =
     fst (pg_init (fst (AsyncPgWrapper example_cfg (Some 7) world0))
                  (snd (AsyncPgWrapper example_cfg (Some 7) world0)))"

definition example_world :: world where
  "example_world =
     snd (pg_init (fst (AsyncPgWrapper example_cfg (Some 7) world0))
                  (snd (AsyncPgWrapper example_cfg (Some 7) world0)))"

text \<open>A body that commits and then raises, and one that commits and returns.\<close>

definition failing_body :: "nat \<Rightarrow> world \<Rightarrow> (exn + unit) \<times> world" where
  "failing_body session w = (Inl (BodyError ''boom''), emit (SessionCommit session) w)"

definition committing_body :: "nat \<Rightarrow> world \<Rightarrow> (exn + unit) \<times> world" where
  "committing_body session w = (Inr (), emit (SessionCommit session) w)"

text \<open>
  A model class with columns \<^verbatim>\<open>id\<close> and \<^verbatim>\<open>name\<close> that excludes \<^verbatim>\<open>id\<close>, and one whose
  field \<^verbatim>\<open>my_id\<close> is read from the key \<^verbatim>\<open>id\<close>.
\<close>

definition user_cls :: model_class where
  "user_cls = \<lparr>cls_name = ''User'', cls_dict_keys = [''__tablename__'', ''id'', ''name''],
     serialize_map = [], except_fields = [''id''], table_columns = [''id'', ''name''],
     class_attrs = [(''__tablename__'', PStr ''users''), (''id'', PNone), (''name'', PNone)]\<rparr>"

definition user :: "pyval \<Rightarrow> string \<Rightarrow> model" where
  "user i n = \<lparr>cls = user_cls, attrs = [(''id'', i), (''name'', PStr n)]\<rparr>"

definition item_cls :: model_class where
  "item_cls = \<lparr>cls_name = ''Item'', cls_dict_keys = [''name'', ''my_id'', ''color''],
     serialize_map = [(''my_id'', ''id'')], except_fields = [],
     table_columns = [''name'', ''my_id'', ''color''],
     class_attrs = [(''name'', PNone), (''my_id'', PNone), (''color'', PNone)]\<rparr>"

definition world_logging :: world where
  "world_logging = \<lparr>class_log = Some 7, trace = [], fresh = 0,
                     scope_faults = (\<lambda>session call. None)\<rparr>"

text \<open>The example world with a driver whose rollback raises.\<close>

definition rollback_fails :: "nat \<Rightarrow> scope_call \<Rightarrow> exn option" where
  "rollback_fails session call =
     (if call = RollbackCall then Some (DriverError ''connection lost'') else None)"

definition faulty_world :: world where
  "faulty_world = example_world\<lparr>scope_faults := rollback_fails\<rparr>"



section \<open>Properties of the pool manager\<close>

lemma pg_init_handles:
  "engine (fst (pg_init s w)) = Some (fresh w) \<and> session_maker (fst (pg_init s w)) = Some (fresh w)"
  by (simp add: pg_init_def Let_def)

lemma example_wrapper_handles:
  "engine example_wrapper = Some 0 \<and> session_maker example_wrapper = Some 0"
  using pg_init_handles [of "fst (AsyncPgWrapper example_cfg (Some 7) world0)"
                            "snd (AsyncPgWrapper example_cfg (Some 7) world0)"]
  by (simp add: example_wrapper_def AsyncPgWrapper_def world0_def)

lemma example_world_fields:
  "class_log example_world = Some 7 \<and> fresh example_world = 1"
  by (simp add: example_world_def pg_init_def Let_def AsyncPgWrapper_def world0_def emit_def)

lemma example_world_faults:
  "scope_faults example_world session call = None"
  by (simp add: example_world_def pg_init_def Let_def AsyncPgWrapper_def world0_def emit_def)

lemma faulty_world_fields:
  "class_log faulty_world = Some 7 \<and> fresh faulty_world = 1 \<and>
   trace faulty_world = trace example_world \<and> scope_faults faulty_world = rollback_fails"
  by (simp add: faulty_world_def example_world_fields)

lemma exit_world:
  "snd (get_session_exit session (Inl e :: exn + 'a) w) =
     w\<lparr>trace := trace w
          @ (case class_log w of Some lg \<Rightarrow> [LogError lg (SessionErrorMsg e)] | None \<Rightarrow> [])
          @ (if class_log w \<noteq> None \<and> scope_faults w session LogErrorCall \<noteq> None then []
             else [SessionRollback session])
          @ [SessionClose session]\<rparr>"
  by (simp add: get_session_exit_def except_branch_def finally_branch_def emit_def
      split: option.splits)

lemma exit_result:
  "fst (get_session_exit session (Inl e :: exn + 'a) w) =
     Inl (case scope_faults w session CloseCall of
            Some y \<Rightarrow> y
          | None \<Rightarrow>
              (case (if class_log w = None then None else scope_faults w session LogErrorCall) of
                 Some x \<Rightarrow> x
               | None \<Rightarrow>
                   (case scope_faults w session RollbackCall of Some x \<Rightarrow> x | None \<Rightarrow> e)))"
  by (auto simp: get_session_exit_def except_branch_def finally_branch_def emit_def
      split: option.splits)

lemma exit_original:
  "class_log w = None \<or> scope_faults w session LogErrorCall = None \<Longrightarrow>
   scope_faults w session RollbackCall = None \<Longrightarrow>
   scope_faults w session CloseCall = None \<Longrightarrow>
   fst (get_session_exit session (Inl e :: exn + 'a) w) = Inl e"
  by (auto simp: exit_result)

lemma example_enter:
  "get_session_enter example_wrapper example_world =
     (Inr 1, (emit (SessionCreated 1 0) example_world)\<lparr>fresh := 2\<rparr>)"
  by (simp add: get_session_enter_def async_sessionmaker_def example_wrapper_handles
      example_world_fields)

text \<open>
  C1, as the code has it. When a session has been leased and the body raises \<open>e\<close>: if the
  call of the logger (made when the class attribute holds one), the rollback and the close
  all return, the scope adds to the trace left by the body exactly one error message with
  \<open>e\<close>, one rollback and then one close of the session, changes nothing else, and the
  caller gets \<open>e\<close> itself. In every case the scope makes the call of the logger first, the
  rollback once unless the logger raised, and then the close, once and last; and the caller
  gets an exception: that of the close when the close raises, else that of the logger or of
  the rollback when one of them raises, else \<open>e\<close>.
\<close>

theorem scope_error_path:
  assumes enter: "get_session_enter s w = (Inr session, w1)"
      and body: "body session w1 = (Inl e, w2)"
  shows "((class_log w2 = None \<or> scope_faults w2 session LogErrorCall = None) \<and>
          scope_faults w2 session RollbackCall = None \<and>
          scope_faults w2 session CloseCall = None \<longrightarrow>
            with_session s body w =
              (Inl e,
               w2\<lparr>trace := trace w2
                    @ (case class_log w2 of Some lg \<Rightarrow> [LogError lg (SessionErrorMsg e)]
                       | None \<Rightarrow> [])
                    @ [SessionRollback session, SessionClose session]\<rparr>))
       \<and> snd (with_session s body w) =
            w2\<lparr>trace := trace w2
                 @ (case class_log w2 of Some lg \<Rightarrow> [LogError lg (SessionErrorMsg e)]
                    | None \<Rightarrow> [])
                 @ (if class_log w2 \<noteq> None \<and> scope_faults w2 session LogErrorCall \<noteq> None
                    then [] else [SessionRollback session])
                 @ [SessionClose session]\<rparr>
       \<and> fst (with_session s body w) =
            Inl (case scope_faults w2 session CloseCall of
                   Some y \<Rightarrow> y
                 | None \<Rightarrow>
                     (case (if class_log w2 = None then None
                            else scope_faults w2 session LogErrorCall) of
                        Some x \<Rightarrow> x
                      | None \<Rightarrow>
                          (case scope_faults w2 session RollbackCall of
                             Some x \<Rightarrow> x
                           | None \<Rightarrow> e)))"
proof -
  have ws: "with_session s body w = get_session_exit session (Inl e) w2"
    using enter body by (simp add: with_session_def)
  let ?log = "case class_log w2 of Some lg \<Rightarrow> [LogError lg (SessionErrorMsg e)] | None \<Rightarrow> []"
  have a: "with_session s body w =
              (Inl e, w2\<lparr>trace := trace w2 @ ?log @ [SessionRollback session, SessionClose session]\<rparr>)"
    if ok: "(class_log w2 = None \<or> scope_faults w2 session LogErrorCall = None) \<and>
          scope_faults w2 session RollbackCall = None \<and>
          scope_faults w2 session CloseCall = None"
  proof -
    from ok have 1: "fst (get_session_exit session (Inl e :: exn + 'a) w2) = Inl e"
      by (intro exit_original) simp_all
    from ok have 2: "snd (get_session_exit session (Inl e :: exn + 'a) w2) =
        w2\<lparr>trace := trace w2 @ ?log @ [SessionRollback session, SessionClose session]\<rparr>"
      by (auto simp: exit_world)
    from 1 2 show ?thesis unfolding ws by (simp add: prod_eq_iff)
  qed
  have b: "snd (with_session s body w) =
            w2\<lparr>trace := trace w2 @ ?log
                 @ (if class_log w2 \<noteq> None \<and> scope_faults w2 session LogErrorCall \<noteq> None
                    then [] else [SessionRollback session])
                 @ [SessionClose session]\<rparr>"
    unfolding ws by (simp add: exit_world)
  have c: "fst (with_session s body w) =
            Inl (case scope_faults w2 session CloseCall of
                   Some y \<Rightarrow> y
                 | None \<Rightarrow>
                     (case (if class_log w2 = None then None
                            else scope_faults w2 session LogErrorCall) of
                        Some x \<Rightarrow> x
                      | None \<Rightarrow>
                          (case scope_faults w2 session RollbackCall of
                             Some x \<Rightarrow> x
                           | None \<Rightarrow> e)))"
    unfolding ws by (rule exit_result)
  from a b c show ?thesis by blast
qed

theorem scope_error_path_witness:
  "fst (with_session example_wrapper failing_body example_world) = Inl (BodyError ''boom'') \<and>
   trace (snd (with_session example_wrapper failing_body example_world)) =
     trace example_world @
     [SessionCreated 1 0, SessionCommit 1, LogError 7 (SessionErrorMsg (BodyError ''boom'')),
      SessionRollback 1, SessionClose 1]"
proof -
  have body: "failing_body 1 ((emit (SessionCreated 1 0) example_world)\<lparr>fresh := 2\<rparr>) =
      (Inl (BodyError ''boom''),
       emit (SessionCommit 1) ((emit (SessionCreated 1 0) example_world)\<lparr>fresh := 2\<rparr>))"
    by (simp add: failing_body_def)
  show ?thesis
    using scope_error_path [where body = failing_body, OF example_enter body]
    by (simp add: emit_def example_world_fields example_world_faults)
qed

text \<open>
  With a rollback that raises, the caller of the scope gets the exception of the rollback in
  place of the one the body raised; the session is still closed.
\<close>

theorem scope_error_path_counterexample:
  "fst (failing_body 1 ((emit (SessionCreated 1 0) faulty_world)\<lparr>fresh := 2\<rparr>))
     = Inl (BodyError ''boom'') \<and>
   fst (with_session example_wrapper failing_body faulty_world)
     = Inl (DriverError ''connection lost'') \<and>
   trace (snd (with_session example_wrapper failing_body faulty_world)) =
     trace example_world @
     [SessionCreated 1 0, SessionCommit 1, LogError 7 (SessionErrorMsg (BodyError ''boom'')),
      SessionRollback 1, SessionClose 1]"
  by (simp add: with_session_def get_session_enter_def async_sessionmaker_def
      example_wrapper_handles faulty_world_fields failing_body_def get_session_exit_def
      except_branch_def finally_branch_def emit_def rollback_fails_def)

text \<open>
  C7. When a session has been leased and the body returns \<open>v\<close>, the scope adds to the trace
  left by the body exactly one close of the session: no rollback, no commit, no message.
  It changes nothing else. The caller gets \<open>v\<close> when the close returns, and the
  exception of the close when it raises.
\<close>

theorem scope_normal_path:
  assumes enter: "get_session_enter s w = (Inr session, w1)"
      and body: "body session w1 = (Inr v, w2)"
  shows "snd (with_session s body w) = w2\<lparr>trace := trace w2 @ [SessionClose session]\<rparr> \<and>
         fst (with_session s body w) =
           (case scope_faults w2 session CloseCall of None \<Rightarrow> Inr v | Some y \<Rightarrow> Inl y)"
  using enter body
  by (simp add: with_session_def get_session_exit_def finally_branch_def emit_def
      split: option.splits)

theorem scope_normal_path_witness:
  "fst (with_session example_wrapper committing_body example_world) = Inr () \<and>
   trace (snd (with_session example_wrapper committing_body example_world)) =
     trace example_world @ [SessionCreated 1 0, SessionCommit 1, SessionClose 1]"
proof -
  have body: "committing_body 1 ((emit (SessionCreated 1 0) example_world)\<lparr>fresh := 2\<rparr>) =
      (Inr (),
       emit (SessionCommit 1) ((emit (SessionCreated 1 0) example_world)\<lparr>fresh := 2\<rparr>))"
    by (simp add: committing_body_def)
  show ?thesis
    using scope_normal_path [where body = committing_body, OF example_enter body]
    by (simp add: emit_def example_world_faults)
qed

text \<open>
  C3. On a wrapper as its constructor leaves it, \<^verbatim>\<open>get_session\<close> does not raise the
  RuntimeError of its guard: the guard tests the imported class, not
  \<^verbatim>\<open>self._session_maker\<close>, so the call of \<^verbatim>\<open>None\<close> raises TypeError. This holds for every
  configuration, logger and world.
\<close>

theorem get_session_before_init:
  "get_session_enter (fst (AsyncPgWrapper c lg w0)) w =
     (Inl (TypeError ''NoneType object is not callable''), w)"
  by (simp add: get_session_enter_def AsyncPgWrapper_def async_sessionmaker_def)

theorem get_session_before_init_witness:
  "with_session (fst (AsyncPgWrapper example_cfg None world0)) failing_body world0 =
     (Inl (TypeError ''NoneType object is not callable''), world0)"
  using get_session_before_init [of example_cfg None world0 world0]
  by (simp add: with_session_def)

text \<open>
  C4, as the code has it. After \<^verbatim>\<open>init\<close> and \<^verbatim>\<open>close\<close>, \<^verbatim>\<open>get_session\<close> is not refused:
  \<^verbatim>\<open>close\<close> returns normally and leaves the pool disposed, the session maker is still in
  place, and \<^verbatim>\<open>get_session\<close> leases a new session from it.
\<close>

theorem get_session_after_close:
  assumes "pg_init s0 w0 = (s, w1)" and "pg_close s w = (r, w')"
  shows "r = Inr () \<and> pool_disposed s w' \<and>
         get_session_enter s w' =
           (Inr (fresh w'), (emit (SessionCreated (fresh w') (fresh w0)) w')\<lparr>fresh := Suc (fresh w')\<rparr>)"
proof -
  from assms(1) have h: "engine s = Some (fresh w0)" "session_maker s = Some (fresh w0)"
    using pg_init_handles [of s0 w0] by simp_all
  from assms(2) h(1) have r: "r = Inr ()" and w': "w' = emit (PoolDispose (fresh w0)) w"
    by (simp_all add: pg_close_def)
  have "pool_disposed s w'"
    by (simp add: pool_disposed_def h(1) w' emit_def)
  moreover have "get_session_enter s w' =
           (Inr (fresh w'), (emit (SessionCreated (fresh w') (fresh w0)) w')\<lparr>fresh := Suc (fresh w')\<rparr>)"
    by (simp add: get_session_enter_def async_sessionmaker_def h(2))
  ultimately show ?thesis using r by simp
qed

lemma example_init:
  "pg_init (fst (AsyncPgWrapper example_cfg (Some 7) world0))
           (snd (AsyncPgWrapper example_cfg (Some 7) world0)) = (example_wrapper, example_world)"
  by (simp add: example_wrapper_def example_world_def)

lemma example_close:
  "pg_close example_wrapper example_world = (Inr (), emit (PoolDispose 0) example_world)"
  by (simp add: pg_close_def example_wrapper_handles)

theorem get_session_after_close_witness:
  "fst (pg_close example_wrapper example_world) = Inr () \<and>
   pool_disposed example_wrapper (snd (pg_close example_wrapper example_world)) \<and>
   fst (get_session_enter example_wrapper (snd (pg_close example_wrapper example_world))) = Inr 1"
  using get_session_after_close [OF example_init example_close]
  by (simp add: example_close emit_def example_world_fields)

text \<open>
  On the example wrapper, initialised and then closed, \<^verbatim>\<open>get_session\<close> raises nothing: it
  leases session 1.
\<close>

theorem get_session_after_close_counterexample:
  "fst (get_session_enter example_wrapper (snd (pg_close example_wrapper example_world))) = Inr 1"
  by (simp add: example_close get_session_enter_def async_sessionmaker_def
      example_wrapper_handles emit_def example_world_fields)





text \<open>
  C10. The constructor stores its logger in the class attribute. After two constructions,
  the attribute holds the logger given to the second, whatever the first was given; with
  either of the two wrappers, the message of \<^verbatim>\<open>init\<close>, the error message of the session
  scope and the field-not-found message of the record serializer all go to that logger, or
  nowhere when the second construction was given none.
\<close>

theorem class_level_logger:
  assumes "AsyncPgWrapper c1 lg1 w0 = (s1, w1)" and "AsyncPgWrapper c2 lg2 w1 = (s2, w2)"
      and "s = s1 \<or> s = s2"
  shows "class_log w1 = lg1 \<and> class_log w2 = lg2
       \<and> log_events (snd (pg_init s w2)) =
           log_events w2 @ (case lg2 of Some lg \<Rightarrow> [LogInfo lg PoolCreatedMsg] | None \<Rightarrow> [])
       \<and> log_events (snd (get_session_exit session (Inl e :: exn + 'a) w2)) =
           log_events w2 @ (case lg2 of Some lg \<Rightarrow> [LogError lg (SessionErrorMsg e)] | None \<Rightarrow> [])
       \<and> log_events (log_field_not_found m field_name w2) =
           log_events w2 @
           (case lg2 of Some lg \<Rightarrow> [LogDebug lg (FieldNotFoundMsg (cls_name (cls m)) field_name)]
            | None \<Rightarrow> [])"
proof -
  from assms(1) have lg1: "class_log w1 = lg1"
    by (auto simp: AsyncPgWrapper_def)
  from assms(2) have lg: "class_log w2 = lg2"
    by (auto simp: AsyncPgWrapper_def)
  have a: "log_events (snd (pg_init s w2)) =
           log_events w2 @ (case lg2 of Some lg \<Rightarrow> [LogInfo lg PoolCreatedMsg] | None \<Rightarrow> [])"
    by (simp add: pg_init_def Let_def emit_def log_events_def lg split: option.splits)
  have b: "log_events (snd (get_session_exit session (Inl e :: exn + 'a) w2)) =
           log_events w2 @ (case lg2 of Some lg \<Rightarrow> [LogError lg (SessionErrorMsg e)] | None \<Rightarrow> [])"
    by (simp add: exit_world log_events_def lg split: option.splits)
  have c: "log_events (log_field_not_found m field_name w2) =
           log_events w2 @
           (case lg2 of Some lg \<Rightarrow> [LogDebug lg (FieldNotFoundMsg (cls_name (cls m)) field_name)]
            | None \<Rightarrow> [])"
    by (simp add: log_field_not_found_def emit_def log_events_def lg split: option.splits)
  from lg1 lg a b c show ?thesis by simp
qed

theorem class_level_logger_witness:
  "class_log (snd (AsyncPgWrapper example_cfg (Some 7) world0)) = Some 7 \<and>
   class_log (snd (AsyncPgWrapper example_cfg None (snd (AsyncPgWrapper example_cfg (Some 7) world0))))
     = None \<and>
   log_events (snd (pg_init (fst (AsyncPgWrapper example_cfg (Some 7) world0))
       (snd (AsyncPgWrapper example_cfg None (snd (AsyncPgWrapper example_cfg (Some 7) world0))))))
     = [] \<and>
   log_events (snd (get_session_exit 1 (Inl (BodyError ''boom'') :: exn + unit)
       (snd (AsyncPgWrapper example_cfg None (snd (AsyncPgWrapper example_cfg (Some 7) world0))))))
     = [] \<and>
   log_events (log_field_not_found (user (PInt 1) ''a'') ''name''
       (snd (AsyncPgWrapper example_cfg None (snd (AsyncPgWrapper example_cfg (Some 7) world0)))))
     = []"
proof -
  have 1: "AsyncPgWrapper example_cfg (Some 7) world0 =
      (fst (AsyncPgWrapper example_cfg (Some 7) world0), snd (AsyncPgWrapper example_cfg (Some 7) world0))"
    by simp
  have 2: "AsyncPgWrapper example_cfg None (snd (AsyncPgWrapper example_cfg (Some 7) world0)) =
      (fst (AsyncPgWrapper example_cfg None (snd (AsyncPgWrapper example_cfg (Some 7) world0))),
       snd (AsyncPgWrapper example_cfg None (snd (AsyncPgWrapper example_cfg (Some 7) world0))))"
    by simp
  have 3: "fst (AsyncPgWrapper example_cfg (Some 7) world0) = fst (AsyncPgWrapper example_cfg (Some 7) world0)
         \<or> fst (AsyncPgWrapper example_cfg (Some 7) world0) =
           fst (AsyncPgWrapper example_cfg None (snd (AsyncPgWrapper example_cfg (Some 7) world0)))"
    by simp
  have 0: "log_events (snd (AsyncPgWrapper example_cfg None (snd (AsyncPgWrapper example_cfg (Some 7) world0)))) = []"
    by (simp add: log_events_def AsyncPgWrapper_def world0_def)
  show ?thesis
    using class_level_logger [OF 1 2 3, of 1 "BodyError ''boom''" "user (PInt 1) ''a''" "''name''",
        where ?'a = unit]
    by (simp add: 0)
qed

section \<open>Properties of the record serializer\<close>

lemma setattr_cls: "cls (setattr m k v) = cls m"
  by (simp add: setattr_def)

lemma set_or_not_found_cls:
  "set_or_not_found strict field_name r m w = (x, m', w') \<Longrightarrow> cls m' = cls m"
  by (auto simp: set_or_not_found_def setattr_cls split: sum.splits exn.splits if_splits)

lemma from_dict_field_cls:
  "from_dict_field d strict field_name m w = (x, m', w') \<Longrightarrow> cls m' = cls m"
  by (auto simp: from_dict_field_def setattr_cls
      split: if_splits option.splits sum.splits dest: set_or_not_found_cls)

lemma from_dict_loop_cls:
  "from_dict_loop d strict names m w = (x, m', w') \<Longrightarrow> cls m' = cls m"
proof (induction names arbitrary: m w)
  case Nil
  then show ?case by simp
next
  case (Cons f names)
  obtain y m1 w1 where f: "from_dict_field d strict f m w = (y, m1, w1)"
    by (cases "from_dict_field d strict f m w") auto
  have 1: "cls m1 = cls m" by (rule from_dict_field_cls [OF f])
  show ?case
  proof (cases y)
    case None
    with Cons.prems f have "from_dict_loop d strict names m1 w1 = (x, m', w')" by simp
    from Cons.IH [OF this] 1 show ?thesis by simp
  next
    case (Some e)
    with Cons.prems f 1 show ?thesis by simp
  qed
qed

lemma from_dict_loop_append:
  "from_dict_loop d strict pre m w = (None, m', w') \<Longrightarrow>
   from_dict_loop d strict (pre @ rest) m w = from_dict_loop d strict rest m' w'"
proof (induction pre arbitrary: m w)
  case Nil
  then show ?case by simp
next
  case (Cons f pre)
  obtain y m1 w1 where f: "from_dict_field d strict f m w = (y, m1, w1)"
    by (cases "from_dict_field d strict f m w") auto
  show ?case
  proof (cases y)
    case None
    with Cons.prems f have "from_dict_loop d strict pre m1 w1 = (None, m', w')" by simp
    from Cons.IH [OF this] f None show ?thesis by simp
  next
    case (Some e)
    with Cons.prems f show ?thesis by simp
  qed
qed

text \<open>
  C2. Where a field of the class is in \<^verbatim>\<open>_serialize_map\<close> and its source key is absent from
  the dictionary, \<^verbatim>\<open>from_dict\<close> raises KeyError when it reaches the field, whether
  \<^verbatim>\<open>strict\<close> is set or not, and logs nothing for it: that branch has no \<^verbatim>\<open>try\<close>. The
  instance and the world are as the fields before it left them.
\<close>

theorem from_dict_renamed_key_absent:
  assumes "cls_dict_keys (cls m) = pre @ field_name # post"
      and "from_dict_loop d strict pre m w = (None, m', w')"
      and "\<not> startswith_underscore field_name"
      and "field_name \<notin> set (except_fields (cls m))"
      and "map_of (serialize_map (cls m)) field_name = Some key"
      and "map_of d key = None"
  shows "from_dict m d strict w = (Some (KeyError key), m', w')"
proof -
  have c: "cls m' = cls m" by (rule from_dict_loop_cls [OF assms(2)])
  have "from_dict_field d strict field_name m' w' = (Some (KeyError key), m', w')"
    using assms(3-6) by (simp add: from_dict_field_def c)
  then have "from_dict_loop d strict (field_name # post) m' w' = (Some (KeyError key), m', w')"
    by simp
  with from_dict_loop_append [OF assms(2), of "field_name # post"] assms(1)
  show ?thesis by (simp add: from_dict_def)
qed

theorem from_dict_renamed_key_absent_witness:
  "from_dict \<lparr>cls = item_cls, attrs = []\<rparr> [(''name'', PStr ''x''), (''color'', PStr ''red'')]
     False world_logging
   = (Some (KeyError ''id''), \<lparr>cls = item_cls, attrs = [(''name'', PStr ''x'')]\<rparr>, world_logging)"
proof -
  have 1: "cls_dict_keys (cls \<lparr>cls = item_cls, attrs = []\<rparr>) = [''name''] @ ''my_id'' # [''color'']"
    by (simp add: item_cls_def)
  have 2: "from_dict_loop [(''name'', PStr ''x''), (''color'', PStr ''red'')] False [''name'']
             \<lparr>cls = item_cls, attrs = []\<rparr> world_logging
           = (None, \<lparr>cls = item_cls, attrs = [(''name'', PStr ''x'')]\<rparr>, world_logging)"
    by (simp add: from_dict_field_def item_cls_def set_or_not_found_def setattr_def)
  show ?thesis
    by (rule from_dict_renamed_key_absent [OF 1 2]) (simp_all add: item_cls_def)
qed

text \<open>
  The two other branches do what the docstring says: a field read under its own name, or
  along a path, whose key is absent is logged, and raises only when \<^verbatim>\<open>strict\<close>.
\<close>

lemma from_dict_field_own_name_absent:
  assumes "\<not> startswith_underscore field_name"
      and "field_name \<notin> set (except_fields (cls m))"
      and "map_of (serialize_map (cls m)) field_name = None"
      and "\<not> contains_dunder field_name"
      and "map_of d field_name = None"
  shows "from_dict_field d strict field_name m w =
           (if strict then Some (KeyError field_name) else None, m,
            log_field_not_found m field_name w)"
  using assms by (simp add: from_dict_field_def set_or_not_found_def)

lemma from_dict_field_nested_absent:
  assumes "\<not> startswith_underscore field_name"
      and "field_name \<notin> set (except_fields (cls m))"
      and "map_of (serialize_map (cls m)) field_name = None"
      and "contains_dunder field_name"
      and "walk (PDict d) (split_dunder field_name) = Inl (KeyError k)"
  shows "from_dict_field d strict field_name m w =
           (if strict then Some (KeyError k) else None, m, log_field_not_found m field_name w)"
  using assms by (simp add: from_dict_field_def set_or_not_found_def)





section \<open>Properties of the result mapping helpers\<close>

lemma dict_get_dict_set:
  "dict_get (dict_set d k v) k' = (if py_eq k k' then Some v else dict_get d k')"
  by (induction d) (auto simp: py_eq_def)

lemma find_snoc:
  "find P (xs @ [x]) =
     (case find P xs of Some y \<Rightarrow> Some y | None \<Rightarrow> if P x then Some x else None)"
  by (induction xs) auto

lemma key_ok_iff:
  "key_ok f m \<longleftrightarrow> (\<exists>v. getattr m f = Inr v \<and> truthy v \<and> hashable v)"
  by (auto simp: key_ok_def split: sum.splits)

lemma loop_stores_last:
  "list_all (key_ok f) ms \<Longrightarrow>
   \<exists>d'. model_list_to_dict_loop ms f d = Inr d' \<and>
        (\<forall>k. dict_get d' k =
           (case find (has_key f k) (rev ms) of Some m \<Rightarrow> Some m | None \<Rightarrow> dict_get d k))"
proof (induction ms arbitrary: d)
  case Nil
  then show ?case by simp
next
  case (Cons m ms)
  from Cons.prems obtain v where v: "getattr m f = Inr v" "truthy v" "hashable v"
    by (auto simp: key_ok_iff)
  from Cons.prems have "list_all (key_ok f) ms" by simp
  from Cons.IH [OF this, of "dict_set d v m"] obtain d' where
    d': "model_list_to_dict_loop ms f (dict_set d v m) = Inr d'"
        "\<And>k. dict_get d' k = (case find (has_key f k) (rev ms) of Some m \<Rightarrow> Some m
                                 | None \<Rightarrow> dict_get (dict_set d v m) k)"
    by blast
  have "model_list_to_dict_loop (m # ms) f d = Inr d'"
    using v d'(1) by simp
  moreover have "dict_get d' k =
      (case find (has_key f k) (rev (m # ms)) of Some m \<Rightarrow> Some m | None \<Rightarrow> dict_get d k)" for k
    using v(1) by (simp add: d'(2) find_snoc dict_get_dict_set has_key_def split: option.splits)
  ultimately show ?case by blast
qed

lemma loop_prefix:
  "list_all (key_ok f) pre \<Longrightarrow>
   \<exists>d'. model_list_to_dict_loop (pre @ rest) f d = model_list_to_dict_loop rest f d'"
proof (induction pre arbitrary: d)
  case Nil
  then show ?case by auto
next
  case (Cons m pre)
  from Cons.prems obtain v where v: "getattr m f = Inr v" "truthy v" "hashable v"
    by (auto simp: key_ok_iff)
  from Cons.prems have "list_all (key_ok f) pre" by simp
  from Cons.IH [OF this, of "dict_set d v m"] show ?case using v by simp
qed

lemma loop_falsy_never_returns:
  "m \<in> set ms \<Longrightarrow> getattr m f = Inr v \<Longrightarrow> \<not> truthy v \<Longrightarrow>
   model_list_to_dict_loop ms f d \<noteq> Inr d'"
proof (induction ms arbitrary: d)
  case Nil
  then show ?case by simp
next
  case (Cons a ms)
  show ?case
  proof (cases "a = m")
    case True
    with Cons.prems show ?thesis by simp
  next
    case False
    with Cons.prems have "m \<in> set ms" by simp
    from Cons.IH [OF this Cons.prems(2,3)] show ?thesis
      by (simp split: sum.splits)
  qed
qed

text \<open>
  C5, as the code has it. When the key field of every record is readable, true and
  hashable, \<^verbatim>\<open>model_list_to_dict\<close> returns a dictionary in which looking up any key gives
  the last record of the sequence whose key field equals it (with Python's \<^verbatim>\<open>==\<close>), and
  nothing when there is none; so the key of every record maps to a record with an equal
  key, and the last of several records with one key wins.
\<close>

theorem model_list_to_dict_last_wins:
  assumes "\<forall>m \<in> set models. \<exists>v. getattr m id_field_name = Inr v \<and> truthy v \<and> hashable v"
  shows "\<exists>d. model_list_to_dict models id_field_name = Inr d \<and>
             (\<forall>k. dict_get d k = find (has_key id_field_name k) (rev models)) \<and>
             (\<forall>m \<in> set models. \<forall>v. getattr m id_field_name = Inr v \<longrightarrow>
                (\<exists>m'. dict_get d v = Some m' \<and> has_key id_field_name v m'))"
proof -
  from assms have "list_all (key_ok id_field_name) models"
    by (auto simp: list_all_iff key_ok_iff)
  from loop_stores_last [OF this, of "[]"] obtain d where
    d0: "model_list_to_dict_loop models id_field_name [] = Inr d"
        "\<And>k. dict_get d k = (case find (has_key id_field_name k) (rev models) of
                                  Some m \<Rightarrow> Some m | None \<Rightarrow> dict_get [] k)"
    by blast
  have d: "model_list_to_dict models id_field_name = Inr d"
          "\<And>k. dict_get d k = find (has_key id_field_name k) (rev models)"
    using d0(1) by (simp_all add: model_list_to_dict_def d0(2) split: option.splits)
  have "\<exists>m'. dict_get d v = Some m' \<and> has_key id_field_name v m'"
    if m: "m \<in> set models" and v: "getattr m id_field_name = Inr v" for m v
  proof -
    have "has_key id_field_name v m" using v by (simp add: has_key_def py_eq_def)
    with m have "find (has_key id_field_name v) (rev models) \<noteq> None"
      by (auto simp: find_None_iff)
    then obtain m' where m': "find (has_key id_field_name v) (rev models) = Some m'" by auto
    then have "has_key id_field_name v m'" by (auto simp: find_Some_iff)
    with m' show ?thesis by (simp add: d(2))
  qed
  with d show ?thesis by blast
qed

theorem model_list_to_dict_last_wins_witness:
  "model_list_to_dict [user (PInt 1) ''a'', user (PInt 2) ''b'', user (PInt 1) ''c''] ''id''
       = Inr [(PInt 1, user (PInt 1) ''c''), (PInt 2, user (PInt 2) ''b'')]
   \<and> find (has_key ''id'' (PInt 1))
        (rev [user (PInt 1) ''a'', user (PInt 2) ''b'', user (PInt 1) ''c''])
       = Some (user (PInt 1) ''c'')"
proof -
  have h: "\<forall>m \<in> set [user (PInt 1) ''a'', user (PInt 2) ''b'', user (PInt 1) ''c''].
             \<exists>v. getattr m ''id'' = Inr v \<and> truthy v \<and> hashable v"
    by (simp add: user_def getattr_def)
  have e: "model_list_to_dict [user (PInt 1) ''a'', user (PInt 2) ''b'', user (PInt 1) ''c''] ''id''
       = Inr [(PInt 1, user (PInt 1) ''c''), (PInt 2, user (PInt 2) ''b'')]"
    by (simp add: model_list_to_dict_def user_def getattr_def py_eq_def)
  from model_list_to_dict_last_wins [OF h] e
  have "find (has_key ''id'' (PInt 1))
          (rev [user (PInt 1) ''a'', user (PInt 2) ''b'', user (PInt 1) ''c''])
          = dict_get [(PInt 1, user (PInt 1) ''c''), (PInt 2, user (PInt 2) ''b'')] (PInt 1)"
    by auto
  then have "find (has_key ''id'' (PInt 1))
          (rev [user (PInt 1) ''a'', user (PInt 2) ''b'', user (PInt 1) ''c''])
          = Some (user (PInt 1) ''c'')"
    by (simp add: py_eq_def)
  with e show ?thesis by blast
qed

text \<open>
  A record whose key field is the list \<^verbatim>\<open>[1]\<close>: the field is present and true, and the
  store raises TypeError.
\<close>

theorem model_list_to_dict_unhashable_counterexample:
  "getattr (user (PList [PInt 1]) ''a'') ''id'' = Inr (PList [PInt 1]) \<and>
   truthy (PList [PInt 1]) \<and>
   model_list_to_dict [user (PList [PInt 1]) ''a''] ''id'' = Inl (TypeError ''unhashable type'')"
  by (simp add: model_list_to_dict_def user_def getattr_def)

text \<open>
  C9. A sequence holding a record whose key field is false (\<^verbatim>\<open>None\<close>, \<^verbatim>\<open>False\<close>, \<^verbatim>\<open>0\<close>,
  the empty string, an empty list or dictionary) is never turned into a dictionary; and
  when the records before it have been stored, the error raised is the key-mapping error
  with the class of that record and the field name.
\<close>

theorem model_list_to_dict_falsy_key:
  assumes "getattr m id_field_name = Inr v" and "\<not> truthy v"
  shows "(\<forall>d. model_list_to_dict (pre @ m # post) id_field_name \<noteq> Inr d) \<and>
         ((\<forall>p \<in> set pre. \<exists>u. getattr p id_field_name = Inr u \<and> truthy u \<and> hashable u) \<longrightarrow>
            model_list_to_dict (pre @ m # post) id_field_name
              = Inl (DictKeyMapError (cls m) id_field_name))"
proof (intro conjI allI impI)
  fix d
  have "m \<in> set (pre @ m # post)" by simp
  from loop_falsy_never_returns [OF this assms]
  show "model_list_to_dict (pre @ m # post) id_field_name \<noteq> Inr d"
    by (simp add: model_list_to_dict_def)
next
  assume "\<forall>p \<in> set pre. \<exists>u. getattr p id_field_name = Inr u \<and> truthy u \<and> hashable u"
  then have "list_all (key_ok id_field_name) pre"
    by (auto simp: list_all_iff key_ok_iff)
  from loop_prefix [OF this, of "m # post" "[]"] assms
  show "model_list_to_dict (pre @ m # post) id_field_name
              = Inl (DictKeyMapError (cls m) id_field_name)"
    by (auto simp: model_list_to_dict_def)
qed

theorem model_list_to_dict_falsy_key_witness:
  "model_list_to_dict [user (PInt 1) ''a'', user (PInt 0) ''z'', user (PInt 2) ''b''] ''id''
     = Inl (DictKeyMapError user_cls ''id'') \<and>
   model_list_to_dict [user (PStr []) ''z''] ''id'' = Inl (DictKeyMapError user_cls ''id'') \<and>
   model_list_to_dict [user (PBool False) ''z''] ''id'' = Inl (DictKeyMapError user_cls ''id'')"
proof -
  have g: "getattr (user (PInt 0) ''z'') ''id'' = Inr (PInt 0)"
    by (simp add: user_def getattr_def)
  have t: "\<not> truthy (PInt 0)" by simp
  have p: "\<forall>p \<in> set [user (PInt 1) ''a'']. \<exists>u. getattr p ''id'' = Inr u \<and> truthy u \<and> hashable u"
    by (simp add: user_def getattr_def)
  from model_list_to_dict_falsy_key [OF g t, of "[user (PInt 1) ''a'']" "[user (PInt 2) ''b'']"] p
  have 1: "model_list_to_dict [user (PInt 1) ''a'', user (PInt 0) ''z'', user (PInt 2) ''b''] ''id''
     = Inl (DictKeyMapError user_cls ''id'')"
    by (simp add: user_def)
  have 2: "model_list_to_dict [user (PStr []) ''z''] ''id'' = Inl (DictKeyMapError user_cls ''id'')"
    by (simp add: model_list_to_dict_def user_def getattr_def)
  have 3: "model_list_to_dict [user (PBool False) ''z''] ''id''
             = Inl (DictKeyMapError user_cls ''id'')"
    by (simp add: model_list_to_dict_def user_def getattr_def)
  from 1 2 3 show ?thesis by simp
qed

end
